theory Spec2Isabelle
  imports Main
begin

section \<open>Data model (inventory/models.py)\<close>

text \<open>
  The three Django models. A stored row is a record of the model's columns; the primary key
  is kept beside the row in the table. Python integers are unbounded, so every integer
  column is an \<open>int\<close> (the range validators and column widths of a particular database
  backend are not part of the source and are not modelled). The \<open>date\<close> column of a
  transaction header is a wall-clock timestamp and is left out.
\<close>

record product =
  part_no :: string
  description :: string
  current_stock :: int

record stock_transaction =
  transaction_code :: string
  transaction_type :: string
  notes_text :: "string option"

record detail_row =
  transaction_id :: nat
  product_id :: nat
  quantity :: int

text \<open>
  An in-memory \<open>StockTransactionDetail\<close> instance: the three columns, the primary key
  (\<open>None\<close> before the first insert) and the cache slot of the \<open>product\<close> foreign key.
  Django loads \<open>self.product\<close> from the database on first access and keeps that
  \<open>Product\<close> object on the instance afterwards; the object is a private copy of the row
  and is not refreshed when the row changes. The cached object, when present, is the one
  for \<open>product_id\<close> (Django drops the cache when \<open>product_id\<close> is reassigned).
  The header \<open>self.transaction\<close> is never written by the source, so it is read through
  \<open>transaction_id\<close> from the table.
\<close>

record detail = detail_row +
  pk :: "nat option"
  product_cache :: "product option"

record db =
  products :: "nat \<rightharpoonup> product"
  transactions :: "(nat \<times> stock_transaction) list"
  details :: "(nat \<times> detail_row) list"

text \<open>
  Exceptions as values. A Django \<open>ValidationError\<close> carries the list of messages that
  were collected; \<open>Wrapped e\<close> is the \<open>serializers.ValidationError(str(e))\<close> that
  the serializer raises for an exception \<open>e\<close> of the model layer.
\<close>

datatype message =
    QuantityNotPositive
  | InsufficientStockMsg string int int
  | NotUniqueTogether
  | InvalidReference string

datatype error =
    ValidationError "message list"
  | DoesNotExist
  | IntegrityError
  | ValueError
  | EmptyTransaction
  | Wrapped error

type_synonym ('a, 's) outcome = "(error + 'a) \<times> 's \<times> db"

section \<open>The persistence primitives the source calls\<close>

text \<open>
  \<open>with transaction.atomic():\<close> runs its body and, when the body raises, restores the
  database to the state at entry and re-raises. Objects in memory are not restored.
\<close>

definition atomic :: "(db \<Rightarrow> ('a, 's) outcome) \<Rightarrow> db \<Rightarrow> ('a, 's) outcome" where
  "atomic body d =
     (case body d of
        (Inl e, s, d') \<Rightarrow> (Inl e, s, d)
      | (Inr v, s, d') \<Rightarrow> (Inr v, s, d'))"

text \<open>A new primary key: one more than the largest key of the table.\<close>

definition next_id :: "(nat \<times> 'a) list \<Rightarrow> nat" where
  "next_id rows = Suc (fold max (map fst rows) 0)"

definition row_of :: "detail \<Rightarrow> detail_row" where
  "row_of self =
     \<lparr>transaction_id = transaction_id self, product_id = product_id self,
      quantity = quantity self\<rparr>"

text \<open>\<open>StockTransactionDetail.objects.get(pk=k)\<close>: a fresh instance, nothing cached.\<close>

definition objects_get :: "nat \<Rightarrow> db \<Rightarrow> detail option" where
  "objects_get k d =
     (case map_of (details d) k of
        None \<Rightarrow> None
      | Some r \<Rightarrow>
          Some \<lparr>transaction_id = transaction_id r, product_id = product_id r,
                quantity = quantity r, pk = Some k, product_cache = None\<rparr>)"

text \<open>
  The attribute \<open>self.product\<close>: the cached object, or the row loaded now and cached.
\<close>

definition get_product :: "detail \<Rightarrow> db \<Rightarrow> (error + product) \<times> detail" where
  "get_product self d =
     (case product_cache self of
        Some p \<Rightarrow> (Inr p, self)
      | None \<Rightarrow>
          (case products d (product_id self) of
             None \<Rightarrow> (Inl DoesNotExist, self)
           | Some p \<Rightarrow> (Inr p, self\<lparr>product_cache := Some p\<rparr>)))"

text \<open>\<open>Product.save()\<close> on the object with primary key \<open>k\<close>: all columns are written.\<close>

definition product_save :: "nat \<Rightarrow> product \<Rightarrow> db \<Rightarrow> db" where
  "product_save k p d = d\<lparr>products := (products d)(k \<mapsto> p)\<rparr>"

text \<open>
  \<open>unique_together = ('transaction', 'product')\<close>: another row (a key other than
  \<open>self.pk\<close>) with the same pair.
\<close>

definition pair_taken :: "detail \<Rightarrow> db \<Rightarrow> bool" where
  "pair_taken self d =
     list_ex (\<lambda>(k, r). transaction_id r = transaction_id self
                      \<and> product_id r = product_id self \<and> Some k \<noteq> pk self)
       (details d)"

text \<open>
  \<open>super().save()\<close>: an UPDATE of the row \<open>self.pk\<close> when it exists, an INSERT
  otherwise (under a new key when \<open>self.pk\<close> is \<open>None\<close>). The unique index of
  \<open>unique_together\<close> refuses a second row with the same pair.
\<close>

definition model_save :: "detail \<Rightarrow> db \<Rightarrow> (unit, detail) outcome" where
  "model_save self d =
     (if pair_taken self d then (Inl IntegrityError, self, d)
      else
        (case pk self of
           None \<Rightarrow>
             (let k = next_id (details d)
              in (Inr (), self\<lparr>pk := Some k\<rparr>,
                  d\<lparr>details := details d @ [(k, row_of self)]\<rparr>))
         | Some k \<Rightarrow>
             (if k \<in> set (map fst (details d))
              then (Inr (), self,
                    d\<lparr>details := map (\<lambda>(k', r). if k' = k then (k', row_of self) else (k', r))
                                      (details d)\<rparr>)
              else (Inr (), self, d\<lparr>details := details d @ [(k, row_of self)]\<rparr>))))"

text \<open>
  \<open>super().delete()\<close>: refuses an instance without primary key, deletes the row and
  clears the instance's key.
\<close>

definition model_delete :: "detail \<Rightarrow> db \<Rightarrow> (unit, detail) outcome" where
  "model_delete self d =
     (case pk self of
        None \<Rightarrow> (Inl ValueError, self, d)
      | Some k \<Rightarrow>
          (Inr (), self\<lparr>pk := None\<rparr>,
           d\<lparr>details := filter (\<lambda>(k', r). k' \<noteq> k) (details d)\<rparr>))"

section \<open>StockTransactionDetail (inventory/models.py)\<close>

text \<open>\<open>clean\<close>: the model's own validation.\<close>

definition clean :: "detail \<Rightarrow> message list" where
  "clean self = (if quantity self \<le> 0 then [QuantityNotPositive] else [])"

text \<open>
  \<open>full_clean\<close> collects the errors of \<open>clean_fields\<close> (each foreign key must name
  an existing row), of \<open>clean\<close> and of \<open>validate_unique\<close> (skipped for a pair one of
  whose fields already failed), and raises one \<open>ValidationError\<close> with all of them.
  The range validator that a database backend attaches to an integer column would add a
  message of its own for a quantity outside the column's range; a quantity below 1 is
  refused by \<open>clean\<close> in any case.
\<close>

definition clean_fields :: "detail \<Rightarrow> db \<Rightarrow> message list" where
  "clean_fields self d =
     (if map_of (transactions d) (transaction_id self) = None
      then [InvalidReference ''transaction''] else []) @
     (if products d (product_id self) = None
      then [InvalidReference ''product''] else [])"

definition validate_unique :: "detail \<Rightarrow> db \<Rightarrow> message list" where
  "validate_unique self d = (if pair_taken self d then [NotUniqueTogether] else [])"

definition full_clean :: "detail \<Rightarrow> db \<Rightarrow> error + unit" where
  "full_clean self d =
     (let field_errors = clean_fields self d;
          errors = field_errors @ clean self
                   @ (if field_errors = [] then validate_unique self d else [])
      in if errors = [] then Inr () else Inl (ValidationError errors))"

text \<open>
  The first half of the body of \<open>save\<close>: \<open>if self.pk:\<close> (a key that is set and not
  \<open>0\<close>) re-reads the stored line and takes its effect back on the stored product of
  that line, through an object of its own (\<open>old_instance.product\<close>).
\<close>

definition revert_old :: "detail \<Rightarrow> db \<Rightarrow> error + db" where
  "revert_old self d =
     (case pk self of
        None \<Rightarrow> Inr d
      | Some k \<Rightarrow>
          (if k = 0 then Inr d
           else
             (case map_of (details d) k of
                None \<Rightarrow> Inl DoesNotExist
              | Some old \<Rightarrow>
                  (case map_of (transactions d) (transaction_id old) of
                     None \<Rightarrow> Inl DoesNotExist
                   | Some t \<Rightarrow>
                       (case products d (product_id old) of
                          None \<Rightarrow> Inl DoesNotExist
                        | Some p \<Rightarrow>
                            Inr (product_save (product_id old)
                                   (if transaction_type t = ''IN''
                                    then p\<lparr>current_stock := current_stock p - quantity old\<rparr>
                                    else p\<lparr>current_stock := current_stock p + quantity old\<rparr>)
                                   d))))))"

text \<open>
  The second half: the new effect is computed on \<open>self.product\<close>, that object is saved,
  then the line itself. For a type that is neither \<open>IN\<close> nor \<open>OUT\<close> the stock is
  not touched, and \<open>self.product\<close> is still saved.
\<close>

definition apply_new :: "detail \<Rightarrow> db \<Rightarrow> (unit, detail) outcome" where
  "apply_new self d =
     (case map_of (transactions d) (transaction_id self) of
        None \<Rightarrow> (Inl DoesNotExist, self, d)
      | Some t \<Rightarrow>
          (case get_product self d of
             (Inl e, self1) \<Rightarrow> (Inl e, self1, d)
           | (Inr p, self1) \<Rightarrow>
               (if transaction_type t = ''IN'' then
                  (let p' = p\<lparr>current_stock := current_stock p + quantity self\<rparr>
                   in model_save (self1\<lparr>product_cache := Some p'\<rparr>)
                        (product_save (product_id self) p' d))
                else if transaction_type t = ''OUT'' then
                  (if current_stock p < quantity self
                   then (Inl (ValidationError
                                [InsufficientStockMsg (part_no p) (current_stock p)
                                   (quantity self)]),
                         self1, d)
                   else
                     (let p' = p\<lparr>current_stock := current_stock p - quantity self\<rparr>
                      in model_save (self1\<lparr>product_cache := Some p'\<rparr>)
                           (product_save (product_id self) p' d)))
                else model_save self1 (product_save (product_id self) p d))))"

definition save_body :: "detail \<Rightarrow> db \<Rightarrow> (unit, detail) outcome" where
  "save_body self d =
     (case revert_old self d of
        Inl e \<Rightarrow> (Inl e, self, d)
      | Inr d1 \<Rightarrow> apply_new self d1)"

definition save :: "detail \<Rightarrow> db \<Rightarrow> (unit, detail) outcome" where
  "save self d =
     (case full_clean self d of
        Inl e \<Rightarrow> (Inl e, self, d)
      | Inr _ \<Rightarrow> atomic (save_body self) d)"

definition delete_body :: "detail \<Rightarrow> db \<Rightarrow> (unit, detail) outcome" where
  "delete_body self d =
     (case map_of (transactions d) (transaction_id self) of
        None \<Rightarrow> (Inl DoesNotExist, self, d)
      | Some t \<Rightarrow>
          (case get_product self d of
             (Inl e, self1) \<Rightarrow> (Inl e, self1, d)
           | (Inr p, self1) \<Rightarrow>
               (let p' = (if transaction_type t = ''IN''
                          then p\<lparr>current_stock := current_stock p - quantity self\<rparr>
                          else p\<lparr>current_stock := current_stock p + quantity self\<rparr>)
                in model_delete (self1\<lparr>product_cache := Some p'\<rparr>)
                     (product_save (product_id self) p' d))))"

definition delete :: "detail \<Rightarrow> db \<Rightarrow> (unit, detail) outcome" where
  "delete self d = atomic (delete_body self) d"

section \<open>StockTransactionSerializer.create (inventory/serializers.py)\<close>

text \<open>
  One entry of \<open>validated_data['details']\<close>: the \<open>Product\<close> object that the
  serializer's field validation loaded for the submitted key (its primary key and its
  columns as they were read), and the quantity.
\<close>

record detail_data =
  data_product_pk :: nat
  data_product :: product
  data_quantity :: int

record validated_data =
  header :: stock_transaction
  details_data :: "detail_data list"

text \<open>
  \<open>StockTransaction.objects.create(**validated_data)\<close>: an INSERT under a new key; the
  unique index on \<open>transaction_code\<close> refuses a code that is already stored.
\<close>

definition transaction_create :: "stock_transaction \<Rightarrow> db \<Rightarrow> error + nat \<times> db" where
  "transaction_create h d =
     (if transaction_code h \<in> set (map (\<lambda>(k, t). transaction_code t) (transactions d))
      then Inl IntegrityError
      else (let k = next_id (transactions d)
            in Inr (k, d\<lparr>transactions := transactions d @ [(k, h)]\<rparr>)))"

text \<open>
  \<open>StockTransactionDetail.objects.create(transaction=stock_transaction, **detail_data)\<close>:
  a new instance holding the given \<open>Product\<close> object, then \<open>save\<close>.
\<close>

definition new_detail :: "nat \<Rightarrow> detail_data \<Rightarrow> detail" where
  "new_detail t dd =
     \<lparr>transaction_id = t, product_id = data_product_pk dd, quantity = data_quantity dd,
      pk = None, product_cache = Some (data_product dd)\<rparr>"

fun create_details :: "nat \<Rightarrow> detail_data list \<Rightarrow> db \<Rightarrow> (error + unit) \<times> db" where
  "create_details t [] d = (Inr (), d)"
| "create_details t (dd # dds) d =
     (case save (new_detail t dd) d of
        (Inl e, _, d') \<Rightarrow> (Inl e, d')
      | (Inr _, _, d') \<Rightarrow> create_details t dds d')"

definition create_body :: "validated_data \<Rightarrow> db \<Rightarrow> (nat, unit) outcome" where
  "create_body vd d =
     (case transaction_create (header vd) d of
        Inl e \<Rightarrow> (Inl e, (), d)
      | Inr (t, d1) \<Rightarrow>
          (case create_details t (details_data vd) d1 of
             (Inl e, d2) \<Rightarrow> (Inl e, (), d2)
           | (Inr _, d2) \<Rightarrow> (Inr t, (), d2)))"

definition create :: "validated_data \<Rightarrow> db \<Rightarrow> (error + nat) \<times> db" where
  "create vd d =
     (if details_data vd = [] then (Inl EmptyTransaction, d)
      else
        (case atomic (create_body vd) d of
           (Inl e, _, d') \<Rightarrow> (Inl (Wrapped e), d')
         | (Inr t, _, d') \<Rightarrow> (Inr t, d')))"

section \<open>Sequences of line operations\<close>

text \<open>
  The source defines \<open>save\<close> and \<open>delete\<close> and leaves the calls on a single line
  to its callers. The three line operations, as a caller that holds only keys runs them:
  Apply-line saves a new instance built from the keys of the header and the product and
  the quantity, Replace-line reads the stored line, assigns the new product key and
  quantity and saves it, Remove-line reads the stored line and deletes it. In these three
  the product object of the line is not loaded before the call. \<open>ApplyLoaded\<close> and
  \<open>RemoveLoaded\<close> are Apply-line and Remove-line on a line that holds its product
  object, read from the database for the call: the line that \<open>new_detail\<close> builds
  from a product object that is up to date, and a stored line that is read together with
  its product. A read that finds no row raises before the line operation starts. An
  operation that raises leaves the database as the enclosing \<open>atomic\<close> left it.
\<close>

datatype op =
    ApplyLine nat nat int
  | ReplaceLine nat nat int
  | RemoveLine nat
  | ApplyLoaded nat nat int
  | RemoveLoaded nat

fun exec :: "op \<Rightarrow> db \<Rightarrow> db" where
  "exec (ApplyLine t p q) d =
     snd (snd (save \<lparr>transaction_id = t, product_id = p, quantity = q,
                     pk = None, product_cache = None\<rparr> d))"
| "exec (ReplaceLine k p q) d =
     (case objects_get k d of
        None \<Rightarrow> d
      | Some line \<Rightarrow> snd (snd (save (line\<lparr>product_id := p, quantity := q\<rparr>) d)))"
| "exec (RemoveLine k) d =
     (case objects_get k d of
        None \<Rightarrow> d
      | Some line \<Rightarrow> snd (snd (delete line d)))"
| "exec (ApplyLoaded t p q) d =
     (case products d p of
        None \<Rightarrow> d
      | Some obj \<Rightarrow>
          snd (snd (save (new_detail t \<lparr>data_product_pk = p, data_product = obj,
                                          data_quantity = q\<rparr>) d)))"
| "exec (RemoveLoaded k) d =
     (case objects_get k d of
        None \<Rightarrow> d
      | Some line \<Rightarrow>
          (case products d (product_id line) of
             None \<Rightarrow> d
           | Some obj \<Rightarrow> snd (snd (delete (line\<lparr>product_cache := Some obj\<rparr>) d))))"

definition run :: "op list \<Rightarrow> db \<Rightarrow> db" where
  "run ops d = fold exec ops d"


section \<open>The ledger\<close>




definition stock :: "db \<Rightarrow> nat \<Rightarrow> int option" where
  "stock d p = map_option current_stock (products d p)"





definition unique_pairs :: "db \<Rightarrow> bool" where
  "unique_pairs d = distinct (map (\<lambda>(k, r). (transaction_id r, product_id r)) (details d))"

definition quantities_positive :: "db \<Rightarrow> bool" where
  "quantities_positive d = list_all (\<lambda>(k, r). 0 < quantity r) (details d)"




section \<open>What the operations write\<close>

text \<open>The rows of the table after \<open>model_save\<close> has written the line.\<close>

definition saved_rows :: "detail \<Rightarrow> (nat \<times> detail_row) list \<Rightarrow> (nat \<times> detail_row) list" where
  "saved_rows self rows =
     (case pk self of
        None \<Rightarrow> rows @ [(next_id rows, row_of self)]
      | Some k \<Rightarrow>
          if k \<in> set (map fst rows)
          then map (\<lambda>(k', r). if k' = k then (k', row_of self) else (k', r)) rows
          else rows @ [(k, row_of self)])"

text \<open>The product object after the new effect of a line of quantity \<open>q\<close>.\<close>

definition moved :: "stock_transaction \<Rightarrow> product \<Rightarrow> int \<Rightarrow> product" where
  "moved t p q =
     (if transaction_type t = ''IN'' then p\<lparr>current_stock := current_stock p + q\<rparr>
      else if transaction_type t = ''OUT'' then p\<lparr>current_stock := current_stock p - q\<rparr>
      else p)"

section \<open>A small warehouse\<close>

text \<open>
  Product 1 is \<open>P-100\<close> with no stock and no movements; header 1 is the goods receipt
  \<open>GRN-1\<close> (type \<open>IN\<close>), header 2 the dispatch \<open>DO-1\<close> (type \<open>OUT\<close>).
\<close>

definition p100 :: product where
  "p100 = \<lparr>part_no = ''P-100'', description = [], current_stock = 0\<rparr>"

definition grn1 :: stock_transaction where
  "grn1 = \<lparr>transaction_code = ''GRN-1'', transaction_type = ''IN'', notes_text = None\<rparr>"

definition do1 :: stock_transaction where
  "do1 = \<lparr>transaction_code = ''DO-1'', transaction_type = ''OUT'', notes_text = None\<rparr>"

definition shop :: db where
  "shop = \<lparr>products = [1 \<mapsto> p100], transactions = [(1, grn1), (2, do1)], details = []\<rparr>"

text \<open>
  The same warehouse after a receipt of 20 and a dispatch of 5 of product 1.
\<close>

definition stocked :: db where
  "stocked =
     \<lparr>products = [1 \<mapsto> p100\<lparr>current_stock := 15\<rparr>],
      transactions = [(1, grn1), (2, do1)],
      details = [(1, \<lparr>transaction_id = 1, product_id = 1, quantity = 20\<rparr>),
                 (2, \<lparr>transaction_id = 2, product_id = 1, quantity = 5\<rparr>)]\<rparr>"

text \<open>The warehouse with a stock of 5 of product 1, from one receipt of 5.\<close>

definition five :: db where
  "five =
     \<lparr>products = [1 \<mapsto> p100\<lparr>current_stock := 5\<rparr>],
      transactions = [(1, grn1), (2, do1)],
      details = [(1, \<lparr>transaction_id = 1, product_id = 1, quantity = 5\<rparr>)]\<rparr>"

text \<open>
  The warehouse after a receipt of 10 and a dispatch of 10 of product 1: no stock left.
\<close>

definition drained :: db where
  "drained =
     \<lparr>products = [1 \<mapsto> p100],
      transactions = [(1, grn1), (2, do1)],
      details = [(1, \<lparr>transaction_id = 1, product_id = 1, quantity = 10\<rparr>),
                 (2, \<lparr>transaction_id = 2, product_id = 1, quantity = 10\<rparr>)]\<rparr>"

text \<open>
  The warehouse after one receipt of 10 of product 1, and the instance that
  \<open>StockTransactionDetail.objects.create(transaction=..., product=..., quantity=10)\<close>
  returned for that line: it holds the \<open>Product\<close> object it was given, whose stock
  \<open>save\<close> raised to 10.
\<close>

definition ten :: db where
  "ten =
     \<lparr>products = [1 \<mapsto> p100\<lparr>current_stock := 10\<rparr>],
      transactions = [(1, grn1), (2, do1)],
      details = [(1, \<lparr>transaction_id = 1, product_id = 1, quantity = 10\<rparr>)]\<rparr>"

definition line10 :: detail where
  "line10 =
     \<lparr>transaction_id = 1, product_id = 1, quantity = 10, pk = Some 1,
      product_cache = Some (p100\<lparr>current_stock := 10\<rparr>)\<rparr>"

text \<open>
  A warehouse with four products, 5 of each in stock from one receipt, and a dispatch of
  1, 2, 3 and 6 of them under the new code \<open>DO-2\<close>; every line carries the product
  object as it was read when the submission was validated.
\<close>

definition item :: "string \<Rightarrow> product" where
  "item n = \<lparr>part_no = n, description = [], current_stock = 5\<rparr>"

definition four :: db where
  "four =
     \<lparr>products = [1 \<mapsto> item ''A'', 2 \<mapsto> item ''B'', 3 \<mapsto> item ''C'', 4 \<mapsto> item ''D''],
      transactions = [(1, grn1), (2, do1)],
      details = [(1, \<lparr>transaction_id = 1, product_id = 1, quantity = 5\<rparr>),
                 (2, \<lparr>transaction_id = 1, product_id = 2, quantity = 5\<rparr>),
                 (3, \<lparr>transaction_id = 1, product_id = 3, quantity = 5\<rparr>),
                 (4, \<lparr>transaction_id = 1, product_id = 4, quantity = 5\<rparr>)]\<rparr>"

definition do2 :: stock_transaction where
  "do2 = \<lparr>transaction_code = ''DO-2'', transaction_type = ''OUT'', notes_text = None\<rparr>"

definition three_lines :: "detail_data list" where
  "three_lines =
     [\<lparr>data_product_pk = 1, data_product = item ''A'', data_quantity = 1\<rparr>,
      \<lparr>data_product_pk = 2, data_product = item ''B'', data_quantity = 2\<rparr>,
      \<lparr>data_product_pk = 3, data_product = item ''C'', data_quantity = 3\<rparr>]"

definition fourth_line :: detail_data where
  "fourth_line = \<lparr>data_product_pk = 4, data_product = item ''D'', data_quantity = 6\<rparr>"

text \<open>The warehouse inside the atomic block, after the header and the first three lines.\<close>

definition four_midway :: db where
  "four_midway =
     \<lparr>products = [1 \<mapsto> (item ''A'')\<lparr>current_stock := 4\<rparr>,
                  2 \<mapsto> (item ''B'')\<lparr>current_stock := 3\<rparr>,
                  3 \<mapsto> (item ''C'')\<lparr>current_stock := 2\<rparr>, 4 \<mapsto> item ''D''],
      transactions = [(1, grn1), (2, do1), (3, do2)],
      details = details four
                @ [(5, \<lparr>transaction_id = 3, product_id = 1, quantity = 1\<rparr>),
                   (6, \<lparr>transaction_id = 3, product_id = 2, quantity = 2\<rparr>),
                   (7, \<lparr>transaction_id = 3, product_id = 3, quantity = 3\<rparr>)]\<rparr>"

text \<open>A second goods receipt header for the small warehouse.\<close>

definition grn2 :: stock_transaction where
  "grn2 = \<lparr>transaction_code = ''GRN-2'', transaction_type = ''IN'', notes_text = None\<rparr>"

section \<open>Basic facts\<close>

subsection \<open>Keys and sums over a table\<close>

lemma fold_max_ge: "a \<le> fold max xs (a::nat)"
  by (induction xs arbitrary: a) (auto intro: order_trans[OF max.cobounded2])

lemma fold_max_mem: "x \<in> set xs \<Longrightarrow> x \<le> fold max xs (a::nat)"
proof (induction xs arbitrary: a)
  case Nil
  then show ?case by simp
next
  case (Cons y ys)
  show ?case
  proof (cases "x = y")
    case True
    have "max y a \<le> fold max ys (max y a)" by (rule fold_max_ge)
    with True show ?thesis by simp
  next
    case False
    with Cons show ?thesis by simp
  qed
qed

lemma next_id_fresh: "next_id rows \<notin> set (map fst rows)"
proof
  assume "next_id rows \<in> set (map fst rows)"
  then have "next_id rows \<le> fold max (map fst rows) 0" by (rule fold_max_mem)
  then show False by (simp add: next_id_def)
qed


lemma map_of_fresh: "k \<notin> set (map fst rows) \<Longrightarrow> map_of rows k = None"
  by (simp add: map_of_eq_None_iff)




subsection \<open>The atomic block, save and delete\<close>

lemma atomic_fail: "atomic body d = (Inl e, s, d') \<Longrightarrow> d' = d"
  by (auto simp: atomic_def split: prod.splits sum.splits)

lemma atomic_ok: "atomic body d = (Inr v, s, d') \<Longrightarrow> body d = (Inr v, s, d')"
  by (auto simp: atomic_def split: prod.splits sum.splits)

lemma atomic_raise: "body d = (Inl e, s, d1) \<Longrightarrow> atomic body d = (Inl e, s, d)"
  by (simp add: atomic_def)

lemma atomic_return: "body d = (Inr v, s, d1) \<Longrightarrow> atomic body d = (Inr v, s, d1)"
  by (simp add: atomic_def)

lemma save_fail: "save self d = (Inl e, s, d') \<Longrightarrow> d' = d"
  by (auto simp: save_def split: sum.splits dest: atomic_fail)

lemma save_ok:
  "save self d = (Inr v, s, d') \<Longrightarrow>
   full_clean self d = Inr () \<and> save_body self d = (Inr v, s, d')"
  by (auto simp: save_def split: sum.splits dest: atomic_ok)

lemma delete_fail: "delete self d = (Inl e, s, d') \<Longrightarrow> d' = d"
  by (auto simp: delete_def dest: atomic_fail)

lemma delete_ok: "delete self d = (Inr v, s, d') \<Longrightarrow> delete_body self d = (Inr v, s, d')"
  by (auto simp: delete_def dest: atomic_ok)

lemma full_clean_ok:
  "full_clean self d = Inr () \<Longrightarrow>
   0 < quantity self \<and> \<not> pair_taken self d
   \<and> map_of (transactions d) (transaction_id self) \<noteq> None
   \<and> products d (product_id self) \<noteq> None"
  by (auto simp: full_clean_def clean_fields_def clean_def validate_unique_def Let_def
           split: if_splits)

lemma full_clean_error: "full_clean self d = Inl e \<Longrightarrow> \<exists>msgs. e = ValidationError msgs"
  by (auto simp: full_clean_def Let_def split: if_splits)

lemma model_save_new:
  "pk self = None \<Longrightarrow> \<not> pair_taken self d \<Longrightarrow>
   model_save self d =
     (Inr (), self\<lparr>pk := Some (next_id (details d))\<rparr>,
      d\<lparr>details := details d @ [(next_id (details d), row_of self)]\<rparr>)"
  by (simp add: model_save_def Let_def)

lemma pair_taken_cache [simp]: "pair_taken (self\<lparr>product_cache := c\<rparr>) d = pair_taken self d"
  by (simp add: pair_taken_def)

lemma pair_taken_products [simp]: "pair_taken self (product_save k p d) = pair_taken self d"
  by (simp add: pair_taken_def product_save_def)

lemma row_of_cache [simp]: "row_of (self\<lparr>product_cache := c\<rparr>) = row_of self"
  by (simp add: row_of_def)

lemma get_product_fields:
  "get_product self d = (r, self1) \<Longrightarrow>
   pk self1 = pk self \<and> transaction_id self1 = transaction_id self
   \<and> product_id self1 = product_id self \<and> quantity self1 = quantity self"
  by (auto simp: get_product_def split: option.splits)

lemma get_product_row [simp]:
  "get_product self d = (r, self1) \<Longrightarrow> row_of self1 = row_of self"
  by (auto simp: get_product_def row_of_def split: option.splits)

lemma get_product_taken [simp]:
  "get_product self d = (r, self1) \<Longrightarrow> pair_taken self1 d' = pair_taken self d'"
  by (auto simp: get_product_def pair_taken_def split: option.splits)

subsection \<open>A product object that is up to date\<close>

text \<open>
  A line that holds the stored row of its product as its product object writes what
  the same line writes when the object is not loaded: \<open>self.product\<close> evaluates to
  the same object either way.
\<close>

lemma revert_old_cache [simp]:
  "revert_old (self\<lparr>product_cache := c\<rparr>) d = revert_old self d"
  by (simp add: revert_old_def)

lemma full_clean_cache [simp]:
  "full_clean (self\<lparr>product_cache := c\<rparr>) d = full_clean self d"
  by (simp add: full_clean_def clean_fields_def clean_def validate_unique_def)







text \<open>The definitions that a concrete run unfolds.\<close>

lemmas eval_defs = save_def full_clean_def clean_fields_def clean_def validate_unique_def
  pair_taken_def atomic_def save_body_def revert_old_def apply_new_def get_product_def
  product_save_def model_save_def next_id_def row_of_def objects_get_def delete_def
  delete_body_def model_delete_def stock_def Let_def p100_def grn1_def do1_def shop_def

section \<open>Create-transaction without lines\<close>

text \<open>
  C9. \<open>StockTransactionSerializer.create\<close> with an empty list of detail lines raises
  the "at least one detail line" error before the atomic block is entered: the database
  that comes back is the one that went in, so no header is stored and no stock changes.
\<close>

theorem create_empty: "create (vd\<lparr>details_data := []\<rparr>) d = (Inl EmptyTransaction, d)"
  by (simp add: create_def)

section \<open>Replace-line is all or nothing\<close>

text \<open>
  C6. Saving a stored line (\<open>self.pk\<close> set) that passes validation: when the first half
  of the body has written the reversal of the old line (database \<open>d1\<close>) and the second
  half then raises, \<open>save\<close> raises the same error and the database is the one from
  before the call, not \<open>d1\<close>: stocks and stored lines are as they were.
\<close>

theorem replace_line_atomic:
  assumes "pk self = Some k" and "k \<noteq> 0"
    and "full_clean self d = Inr ()"
    and "revert_old self d = Inr d1"
    and "apply_new self d1 = (Inl e, s, d2)"
  shows "save self d = (Inl e, s, d)"
proof -
  from assms(4,5) have "save_body self d = (Inl e, s, d2)"
    by (simp add: save_body_def)
  then have "atomic (save_body self) d = (Inl e, s, d)"
    by (rule atomic_raise)
  with assms(3) show ?thesis by (simp add: save_def)
qed

text \<open>
  The dispatch line 2 (quantity 5, stock 15) is edited to quantity 30: the reversal
  brings the stock to 20, the check of 20 against 30 fails, and the stock is 15 again.
\<close>

theorem replace_line_atomic_witness:
  "revert_old \<lparr>transaction_id = 2, product_id = 1, quantity = 30, pk = Some 2,
               product_cache = None\<rparr> stocked
     = Inr (stocked\<lparr>products := [1 \<mapsto> p100\<lparr>current_stock := 20\<rparr>]\<rparr>)
   \<and> save \<lparr>transaction_id = 2, product_id = 1, quantity = 30, pk = Some 2,
            product_cache = None\<rparr> stocked
     = (Inl (ValidationError [InsufficientStockMsg ''P-100'' 20 30]),
        \<lparr>transaction_id = 2, product_id = 1, quantity = 30, pk = Some 2,
         product_cache = Some (p100\<lparr>current_stock := 20\<rparr>)\<rparr>,
        stocked)
   \<and> stock stocked 1 = Some 15"
proof -
  let ?line = "\<lparr>transaction_id = 2, product_id = 1, quantity = 30, pk = Some 2,
                product_cache = None\<rparr>"
  let ?d1 = "stocked\<lparr>products := [1 \<mapsto> p100\<lparr>current_stock := 20\<rparr>]\<rparr>"
  have k: "pk ?line = Some 2" "(2::nat) \<noteq> 0" by simp_all
  have fc: "full_clean ?line stocked = Inr ()"
    by (simp add: eval_defs stocked_def)
  have r: "revert_old ?line stocked = Inr ?d1"
    by (simp add: eval_defs stocked_def)
  have a: "apply_new ?line ?d1 =
      (Inl (ValidationError [InsufficientStockMsg ''P-100'' 20 30]),
       ?line\<lparr>product_cache := Some (p100\<lparr>current_stock := 20\<rparr>)\<rparr>, ?d1)"
    by (simp add: eval_defs stocked_def)
  have s: "stock stocked 1 = Some 15" by (simp add: eval_defs stocked_def)
  from replace_line_atomic[OF k fc r a] r s show ?thesis by simp
qed

section \<open>What a successful save wrote\<close>

lemma revert_old_frame:
  "revert_old self d = Inr d1 \<Longrightarrow> details d1 = details d \<and> transactions d1 = transactions d"
  by (auto simp: revert_old_def product_save_def split: option.splits if_splits)

lemma get_product_cached:
  "get_product self d = (Inr p, self1) \<Longrightarrow> self1\<lparr>product_cache := Some p\<rparr> = self1"
  by (auto simp: get_product_def split: option.splits)

lemma product_save_simps [simp]:
  "details (product_save k p d) = details d"
  "transactions (product_save k p d) = transactions d"
  "products (product_save k p d) = (products d)(k \<mapsto> p)"
  by (simp_all add: product_save_def)

lemma saved_rows_cache [simp]: "saved_rows (self\<lparr>product_cache := c\<rparr>) rows = saved_rows self rows"
  by (auto simp: saved_rows_def split: option.splits)

lemma get_product_self:
  "get_product self d = (r, self1) \<Longrightarrow> self1 = self \<or> (\<exists>c. self1 = self\<lparr>product_cache := c\<rparr>)"
  by (auto simp: get_product_def split: option.splits)

lemma get_product_saved_rows [simp]:
  "get_product self d = (r, self1) \<Longrightarrow> saved_rows self1 rows = saved_rows self rows"
  by (auto dest!: get_product_self)

lemma model_save_ok:
  "model_save self d = (Inr v, s, d') \<Longrightarrow>
   \<not> pair_taken self d \<and> products d' = products d \<and> transactions d' = transactions d
   \<and> details d' = saved_rows self (details d)"
  by (auto simp: model_save_def saved_rows_def Let_def split: if_splits option.splits)

lemma apply_new_ok:
  assumes "apply_new self d = (Inr v, s, d')"
  shows "\<exists>t p self1.
           map_of (transactions d) (transaction_id self) = Some t
         \<and> get_product self d = (Inr p, self1)
         \<and> (transaction_type t = ''OUT'' \<longrightarrow> quantity self \<le> current_stock p)
         \<and> model_save (self1\<lparr>product_cache := Some (moved t p (quantity self))\<rparr>)
              (product_save (product_id self) (moved t p (quantity self)) d) = (Inr v, s, d')"
proof -
  from assms obtain t where t: "map_of (transactions d) (transaction_id self) = Some t"
    by (auto simp: apply_new_def split: option.splits)
  from assms t obtain p self1 where g: "get_product self d = (Inr p, self1)"
    by (auto simp: apply_new_def split: prod.splits sum.splits)
  have c: "self1\<lparr>product_cache := Some p\<rparr> = self1"
    using g by (rule get_product_cached)
  consider "transaction_type t = ''IN''" | "transaction_type t = ''OUT''"
    | "transaction_type t \<noteq> ''IN''" "transaction_type t \<noteq> ''OUT''" by blast
  then show ?thesis
  proof cases
    case 1
    with assms t g show ?thesis by (simp add: apply_new_def moved_def Let_def)
  next
    case 2
    with assms t g show ?thesis
      by (simp add: apply_new_def moved_def Let_def split: if_splits)
  next
    case 3
    with assms t g c show ?thesis by (simp add: apply_new_def moved_def)
  qed
qed

lemma save_body_details:
  assumes "save_body self d = (Inr v, s, d')"
  shows "transactions d' = transactions d \<and> details d' = saved_rows self (details d)"
proof -
  from assms obtain d1 where r: "revert_old self d = Inr d1"
    and a: "apply_new self d1 = (Inr v, s, d')"
    by (auto simp: save_body_def split: sum.splits)
  from apply_new_ok[OF a] obtain t p self1 where
    g: "get_product self d1 = (Inr p, self1)" and
    m: "model_save (self1\<lparr>product_cache := Some (moved t p (quantity self))\<rparr>)
          (product_save (product_id self) (moved t p (quantity self)) d1) = (Inr v, s, d')"
    by blast
  from model_save_ok[OF m] get_product_saved_rows[OF g] revert_old_frame[OF r]
  show ?thesis by simp
qed

lemma set_saved_rows:
  "(k, r) \<in> set (saved_rows self rows) \<Longrightarrow> (k, r) \<in> set rows \<or> r = row_of self"
  by (auto simp: saved_rows_def split: option.splits if_splits)

section \<open>Quantities are positive\<close>

lemma quantities_positive_save:
  assumes "quantities_positive d"
  shows "quantities_positive (snd (snd (save self d)))"
proof (cases "save self d")
  case (fields r s d')
  show ?thesis
  proof (cases r)
    case (Inl e)
    with fields have "d' = d" by (auto dest: save_fail)
    with assms fields show ?thesis by simp
  next
    case (Inr v)
    with fields have fc: "full_clean self d = Inr ()" and b: "save_body self d = (Inr v, s, d')"
      by (auto dest: save_ok)
    from full_clean_ok[OF fc] have q: "0 < quantity (row_of self)" by (simp add: row_of_def)
    from save_body_details[OF b] assms q have "quantities_positive d'"
      by (auto simp: quantities_positive_def list_all_iff dest!: set_saved_rows)
    with fields show ?thesis by simp
  qed
qed

lemma quantities_positive_delete:
  assumes "quantities_positive d"
  shows "quantities_positive (snd (snd (delete self d)))"
proof (cases "delete self d")
  case (fields r s d')
  show ?thesis
  proof (cases r)
    case (Inl e)
    with fields have "d' = d" by (auto dest: delete_fail)
    with assms fields show ?thesis by simp
  next
    case (Inr v)
    with fields have "delete_body self d = (Inr v, s, d')" by (auto dest: delete_ok)
    then have "set (details d') \<subseteq> set (details d)"
      by (auto simp: delete_body_def model_delete_def product_save_def Let_def
               split: option.splits prod.splits sum.splits)
    with assms have "quantities_positive d'"
      by (auto simp: quantities_positive_def list_all_iff)
    with fields show ?thesis by simp
  qed
qed

lemma quantities_positive_run:
  "quantities_positive d \<Longrightarrow> quantities_positive (run ops d)"
  unfolding run_def
proof (induction ops arbitrary: d)
  case Nil
  then show ?case by simp
next
  case (Cons a ops)
  have "quantities_positive (exec a d)"
    using Cons.prems
    by (cases a) (auto simp: quantities_positive_save quantities_positive_delete split: option.splits)
  then show ?case using Cons.IH by simp
qed

lemma full_clean_quantity:
  "quantity self \<le> 0 \<Longrightarrow>
   \<exists>msgs. full_clean self d = Inl (ValidationError msgs) \<and> QuantityNotPositive \<in> set msgs"
  by (simp add: full_clean_def clean_def Let_def)

text \<open>
  C8. \<open>save\<close> runs \<open>full_clean\<close> before anything else: with a quantity of zero or
  less it raises a \<open>ValidationError\<close> that carries the "must be a positive number"
  message, and neither the instance (with its cached product) nor the database has been
  touched. Whatever \<open>save\<close> does, if every stored line had a positive quantity
  before, every stored line has one afterwards.
\<close>

theorem apply_line_invalid_quantity:
  assumes "save self d = (r, s, d')"
  shows "(quantity self \<le> 0 \<longrightarrow>
            (\<exists>msgs. r = Inl (ValidationError msgs) \<and> QuantityNotPositive \<in> set msgs)
            \<and> s = self \<and> d' = d)
         \<and> (quantities_positive d \<longrightarrow> quantities_positive d')"
proof (intro conjI impI)
  assume "quantity self \<le> 0"
  then obtain msgs where m: "full_clean self d = Inl (ValidationError msgs)"
    and q: "QuantityNotPositive \<in> set msgs"
    using full_clean_quantity by blast
  from m assms have *: "r = Inl (ValidationError msgs)" "s = self" "d' = d"
    by (simp_all add: save_def)
  from * q show "\<exists>msgs. r = Inl (ValidationError msgs) \<and> QuantityNotPositive \<in> set msgs"
    by blast
  from * show "s = self" and "d' = d" by simp_all
next
  assume "quantities_positive d"
  then have "quantities_positive (snd (snd (save self d)))"
    by (rule quantities_positive_save)
  with assms show "quantities_positive d'" by simp
qed

text \<open>
  A line of quantity 0 for a pair that is already stored is refused with both messages;
  editing the dispatch line 2 to quantity 7 is accepted and stores a positive quantity.
\<close>

theorem apply_line_invalid_quantity_witness:
  "save \<lparr>transaction_id = 1, product_id = 1, quantity = 0, pk = None, product_cache = None\<rparr>
     stocked
     = (Inl (ValidationError [QuantityNotPositive, NotUniqueTogether]),
        \<lparr>transaction_id = 1, product_id = 1, quantity = 0, pk = None, product_cache = None\<rparr>,
        stocked)
   \<and> quantities_positive stocked
   \<and> quantities_positive
        (stocked\<lparr>products := [1 \<mapsto> p100\<lparr>current_stock := 13\<rparr>],
                 details := [(1, \<lparr>transaction_id = 1, product_id = 1, quantity = 20\<rparr>),
                             (2, \<lparr>transaction_id = 2, product_id = 1, quantity = 7\<rparr>)]\<rparr>)"
proof -
  let ?bad = "\<lparr>transaction_id = 1, product_id = 1, quantity = 0, pk = None,
               product_cache = None\<rparr>"
  let ?good = "\<lparr>transaction_id = 2, product_id = 1, quantity = 7, pk = Some 2,
                product_cache = None\<rparr>"
  let ?d' = "stocked\<lparr>products := [1 \<mapsto> p100\<lparr>current_stock := 13\<rparr>],
                 details := [(1, \<lparr>transaction_id = 1, product_id = 1, quantity = 20\<rparr>),
                             (2, \<lparr>transaction_id = 2, product_id = 1, quantity = 7\<rparr>)]\<rparr>"
  have b: "save ?bad stocked
             = (Inl (ValidationError [QuantityNotPositive, NotUniqueTogether]), ?bad, stocked)"
    by (simp add: eval_defs stocked_def)
  have g: "save ?good stocked
             = (Inr (), ?good\<lparr>product_cache := Some (p100\<lparr>current_stock := 13\<rparr>)\<rparr>, ?d')"
    by (simp add: eval_defs stocked_def)
  have z: "quantity ?bad \<le> 0" by simp
  have q: "quantities_positive stocked"
    by (simp add: quantities_positive_def stocked_def)
  from apply_line_invalid_quantity[OF b] z q have 1: "quantities_positive stocked" by blast
  from apply_line_invalid_quantity[OF g] q have 2: "quantities_positive ?d'" by blast
  from b 1 2 show ?thesis by blast
qed

section \<open>Apply-line for a dispatch\<close>

lemma apply_new_out_short:
  assumes "map_of (transactions d) (transaction_id self) = Some t"
    and "transaction_type t = ''OUT''"
    and "get_product self d = (Inr p, self1)"
    and "current_stock p < quantity self"
  shows "apply_new self d =
           (Inl (ValidationError
                   [InsufficientStockMsg (part_no p) (current_stock p) (quantity self)]),
            self1, d)"
  using assms by (simp add: apply_new_def)

lemma apply_new_out_enough:
  assumes "map_of (transactions d) (transaction_id self) = Some t"
    and "transaction_type t = ''OUT''"
    and "get_product self d = (Inr p, self1)"
    and "quantity self \<le> current_stock p"
  shows "apply_new self d =
           model_save (self1\<lparr>product_cache := Some (p\<lparr>current_stock := current_stock p - quantity self\<rparr>)\<rparr>)
             (product_save (product_id self) (p\<lparr>current_stock := current_stock p - quantity self\<rparr>) d)"
  using assms by (simp add: apply_new_def Let_def)

lemma revert_old_new: "pk self = None \<Longrightarrow> revert_old self d = Inr d"
  by (simp add: revert_old_def)

text \<open>
  C3. A new line (\<open>self.pk\<close> is \<open>None\<close>) of a transaction of type \<open>OUT\<close>, where
  \<open>self.product\<close> evaluates to the object \<open>p\<close>. When \<open>p.current_stock\<close> is below
  the quantity, \<open>save\<close> raises a \<open>ValidationError\<close> and the database is unchanged;
  for a line that passes validation the error is the one message built from
  \<open>p.part_no\<close>, \<open>p.current_stock\<close> (available) and the quantity (required). When
  the stock covers the quantity and the line passes validation, \<open>save\<close> returns, the
  product row holds \<open>p\<close> with the stock lowered by exactly the quantity, no other
  product row changes, and the line is stored under a new key.
\<close>

theorem apply_line_out:
  assumes "pk self = None"
    and "map_of (transactions d) (transaction_id self) = Some t"
    and "transaction_type t = ''OUT''"
    and "get_product self d = (Inr p, self1)"
  shows "(current_stock p < quantity self \<longrightarrow>
            (\<exists>msgs s. save self d = (Inl (ValidationError msgs), s, d))
            \<and> (full_clean self d = Inr () \<longrightarrow>
                 save self d =
                   (Inl (ValidationError
                           [InsufficientStockMsg (part_no p) (current_stock p) (quantity self)]),
                    self1, d)))
       \<and> (quantity self \<le> current_stock p \<and> full_clean self d = Inr () \<longrightarrow>
            (\<exists>s d'. save self d = (Inr (), s, d')
               \<and> products d' (product_id self)
                   = Some (p\<lparr>current_stock := current_stock p - quantity self\<rparr>)
               \<and> (\<forall>p'. p' \<noteq> product_id self \<longrightarrow> products d' p' = products d p')
               \<and> details d' = details d @ [(next_id (details d), row_of self)]))"
proof (intro conjI impI)
  assume short: "current_stock p < quantity self"
  have body: "save_body self d =
           (Inl (ValidationError
                   [InsufficientStockMsg (part_no p) (current_stock p) (quantity self)]),
            self1, d)"
    using apply_new_out_short[OF assms(2,3,4) short] revert_old_new[OF assms(1)]
    by (simp add: save_body_def)
  show "\<exists>msgs s. save self d = (Inl (ValidationError msgs), s, d)"
  proof (cases "full_clean self d")
    case (Inl e)
    then obtain msgs where "e = ValidationError msgs" by (auto dest: full_clean_error)
    with Inl show ?thesis by (simp add: save_def)
  next
    case (Inr u)
    with atomic_raise[where body="save_body self", OF body] show ?thesis by (simp add: save_def)
  qed
  assume "full_clean self d = Inr ()"
  with atomic_raise[where body="save_body self", OF body]
  show "save self d =
          (Inl (ValidationError
                  [InsufficientStockMsg (part_no p) (current_stock p) (quantity self)]),
           self1, d)"
    by (simp add: save_def)
next
  assume "quantity self \<le> current_stock p \<and> full_clean self d = Inr ()"
  then have enough: "quantity self \<le> current_stock p" and fc: "full_clean self d = Inr ()"
    by simp_all
  let ?p' = "p\<lparr>current_stock := current_stock p - quantity self\<rparr>"
  let ?d1 = "product_save (product_id self) ?p' d"
  from full_clean_ok[OF fc] have free: "\<not> pair_taken self d" by simp
  from get_product_fields[OF assms(4)] assms(1) have k: "pk (self1\<lparr>product_cache := Some ?p'\<rparr>) = None"
    by simp
  from free get_product_taken[OF assms(4)] have free': "\<not> pair_taken (self1\<lparr>product_cache := Some ?p'\<rparr>) ?d1"
    by simp
  have "save_body self d = model_save (self1\<lparr>product_cache := Some ?p'\<rparr>) ?d1"
    using apply_new_out_enough[OF assms(2,3,4) enough] revert_old_new[OF assms(1)]
    by (simp add: save_body_def)
  also have "\<dots> = (Inr (), self1\<lparr>product_cache := Some ?p', pk := Some (next_id (details d))\<rparr>,
                    ?d1\<lparr>details := details d @ [(next_id (details d), row_of self)]\<rparr>)"
    using model_save_new[OF k free'] get_product_row[OF assms(4)] by simp
  finally have "save self d = (Inr (), self1\<lparr>product_cache := Some ?p', pk := Some (next_id (details d))\<rparr>,
                    ?d1\<lparr>details := details d @ [(next_id (details d), row_of self)]\<rparr>)"
    using fc by (simp add: save_def atomic_return)
  then show "\<exists>s d'. save self d = (Inr (), s, d')
               \<and> products d' (product_id self) = Some ?p'
               \<and> (\<forall>p'. p' \<noteq> product_id self \<longrightarrow> products d' p' = products d p')
               \<and> details d' = details d @ [(next_id (details d), row_of self)]"
    by simp
qed

text \<open>
  Stock 5: a dispatch of 6 is refused and the stock stays 5; a dispatch of 5 is accepted
  and leaves 0.
\<close>

theorem apply_line_out_witness:
  "save \<lparr>transaction_id = 2, product_id = 1, quantity = 6, pk = None, product_cache = None\<rparr> five
     = (Inl (ValidationError [InsufficientStockMsg ''P-100'' 5 6]),
        \<lparr>transaction_id = 2, product_id = 1, quantity = 6, pk = None,
         product_cache = Some (p100\<lparr>current_stock := 5\<rparr>)\<rparr>,
        five)
   \<and> stock five 1 = Some 5
   \<and> (\<exists>s d'. save \<lparr>transaction_id = 2, product_id = 1, quantity = 5, pk = None,
                     product_cache = None\<rparr> five = (Inr (), s, d')
          \<and> products d' 1 = Some (p100\<lparr>current_stock := 0\<rparr>)
          \<and> details d' = details five @ [(2, \<lparr>transaction_id = 2, product_id = 1, quantity = 5\<rparr>)])"
proof -
  let ?six = "\<lparr>transaction_id = 2, product_id = 1, quantity = 6, pk = None, product_cache = None\<rparr>"
  let ?five = "\<lparr>transaction_id = 2, product_id = 1, quantity = 5, pk = None, product_cache = None\<rparr>"
  let ?p = "p100\<lparr>current_stock := 5\<rparr>"
  have t: "map_of (transactions five) 2 = Some do1" "transaction_type do1 = ''OUT''"
    by (simp_all add: five_def do1_def)
  have g6: "get_product ?six five = (Inr ?p, ?six\<lparr>product_cache := Some ?p\<rparr>)"
    by (simp add: get_product_def five_def)
  have g5: "get_product ?five five = (Inr ?p, ?five\<lparr>product_cache := Some ?p\<rparr>)"
    by (simp add: get_product_def five_def)
  have f6: "full_clean ?six five = Inr ()" by (simp add: eval_defs five_def)
  have f5: "full_clean ?five five = Inr ()" by (simp add: eval_defs five_def)
  have s: "stock five 1 = Some 5" by (simp add: stock_def five_def p100_def)
  have n: "next_id (details five) = 2" by (simp add: next_id_def five_def)
  have 1: "save ?six five
     = (Inl (ValidationError [InsufficientStockMsg ''P-100'' 5 6]),
        ?six\<lparr>product_cache := Some ?p\<rparr>, five)"
    using apply_line_out[of ?six five do1 ?p "?six\<lparr>product_cache := Some ?p\<rparr>"] t g6 f6
    by (simp add: p100_def)
  have "\<exists>s d'. save ?five five = (Inr (), s, d')
          \<and> products d' 1 = Some (p100\<lparr>current_stock := 0\<rparr>)
          \<and> (\<forall>p'. p' \<noteq> 1 \<longrightarrow> products d' p' = products five p')
          \<and> details d' = details five @ [(2, \<lparr>transaction_id = 2, product_id = 1, quantity = 5\<rparr>)]"
    using apply_line_out[of ?five five do1 ?p "?five\<lparr>product_cache := Some ?p\<rparr>"] t g5 f5 n
    by (simp add: p100_def row_of_def)
  then have 2: "\<exists>s d'. save ?five five = (Inr (), s, d')
          \<and> products d' 1 = Some (p100\<lparr>current_stock := 0\<rparr>)
          \<and> details d' = details five @ [(2, \<lparr>transaction_id = 2, product_id = 1, quantity = 5\<rparr>)]"
    by blast
  from 1 2 s show ?thesis by simp
qed

section \<open>Apply-line followed by Remove-line\<close>

lemma save_new_result:
  assumes "pk self = None" and "save self d = (Inr v, self1, d1)"
  shows "\<exists>t p self0.
           map_of (transactions d) (transaction_id self) = Some t
         \<and> get_product self d = (Inr p, self0)
         \<and> (transaction_type t = ''OUT'' \<longrightarrow> quantity self \<le> current_stock p)
         \<and> self1 = self0\<lparr>product_cache := Some (moved t p (quantity self)),
                         pk := Some (next_id (details d))\<rparr>
         \<and> d1 = d\<lparr>products := (products d)(product_id self \<mapsto> moved t p (quantity self)),
                   details := details d @ [(next_id (details d), row_of self)]\<rparr>"
proof -
  from save_ok[OF assms(2)] have b: "save_body self d = (Inr v, self1, d1)" by simp
  with assms(1) have a: "apply_new self d = (Inr v, self1, d1)"
    by (simp add: save_body_def revert_old_def)
  from apply_new_ok[OF a] obtain t p self0 where
    t: "map_of (transactions d) (transaction_id self) = Some t" and
    g: "get_product self d = (Inr p, self0)" and
    c: "transaction_type t = ''OUT'' \<longrightarrow> quantity self \<le> current_stock p" and
    m: "model_save (self0\<lparr>product_cache := Some (moved t p (quantity self))\<rparr>)
          (product_save (product_id self) (moved t p (quantity self)) d) = (Inr v, self1, d1)"
    by blast
  let ?s = "self0\<lparr>product_cache := Some (moved t p (quantity self))\<rparr>"
  let ?d = "product_save (product_id self) (moved t p (quantity self)) d"
  from get_product_fields[OF g] assms(1) have k: "pk ?s = None" by simp
  from model_save_ok[OF m] have free: "\<not> pair_taken ?s ?d" by simp
  from model_save_new[OF k free] m get_product_row[OF g]
  have "self1 = ?s\<lparr>pk := Some (next_id (details d))\<rparr>"
    and "d1 = ?d\<lparr>details := details d @ [(next_id (details d), row_of self)]\<rparr>"
    by simp_all
  with t g c show ?thesis by (simp add: product_save_def)
qed






section \<open>Remove-line does not check the stock\<close>

lemma run_drained: "run [ApplyLine 1 1 10, ApplyLine 2 1 10] shop = drained"
  by (simp add: run_def eval_defs drained_def)

text \<open>
  C10. \<open>delete\<close> on a stored line (\<open>self.pk\<close> set) of a transaction of type \<open>IN\<close>,
  where \<open>self.product\<close> evaluates to the object \<open>p\<close>: it returns, whatever the stock
  is; the product's row is \<open>p\<close> with the quantity subtracted and the line's row is
  gone. From the warehouse without movements, a receipt of 10, a dispatch of 10 and the
  removal of the receipt line lead to a stock of \<open>-10\<close>.
\<close>

theorem remove_line_unconditional:
  assumes "pk self = Some k"
    and "map_of (transactions d) (transaction_id self) = Some t"
    and "transaction_type t = ''IN''"
    and "get_product self d = (Inr p, self1)"
  shows "(\<exists>self'. delete self d =
            (Inr (), self',
             d\<lparr>products := (products d)(product_id self \<mapsto>
                                p\<lparr>current_stock := current_stock p - quantity self\<rparr>),
               details := filter (\<lambda>(k', r). k' \<noteq> k) (details d)\<rparr>))
       \<and> stock (run [ApplyLine 1 1 10, ApplyLine 2 1 10, RemoveLine 1] shop) 1 = Some (- 10)"
proof
  let ?p' = "p\<lparr>current_stock := current_stock p - quantity self\<rparr>"
  from get_product_fields[OF assms(4)] assms(1) have k: "pk self1 = Some k" by simp
  have "delete_body self d =
          (Inr (), self1\<lparr>product_cache := Some ?p', pk := None\<rparr>,
           d\<lparr>products := (products d)(product_id self \<mapsto> ?p'),
             details := filter (\<lambda>(k', r). k' \<noteq> k) (details d)\<rparr>)"
    using assms(2,3,4) k
    by (simp add: delete_body_def model_delete_def product_save_def Let_def)
  then have "delete self d =
          (Inr (), self1\<lparr>product_cache := Some ?p', pk := None\<rparr>,
           d\<lparr>products := (products d)(product_id self \<mapsto> ?p'),
             details := filter (\<lambda>(k', r). k' \<noteq> k) (details d)\<rparr>)"
    unfolding delete_def by (rule atomic_return)
  then show "\<exists>self'. delete self d =
            (Inr (), self',
             d\<lparr>products := (products d)(product_id self \<mapsto> ?p'),
               details := filter (\<lambda>(k', r). k' \<noteq> k) (details d)\<rparr>)"
    by blast
next
  show "stock (run [ApplyLine 1 1 10, ApplyLine 2 1 10, RemoveLine 1] shop) 1 = Some (- 10)"
    by (simp add: run_def eval_defs)
qed

text \<open>
  The receipt line 1 of quantity 10 is read from the drained warehouse (stock 0) and
  deleted: the call returns, the stock is \<open>-10\<close> and only the dispatch line is left.
\<close>

theorem remove_line_unconditional_witness:
  "objects_get 1 drained
     = Some \<lparr>transaction_id = 1, product_id = 1, quantity = 10, pk = Some 1,
             product_cache = None\<rparr>
   \<and> stock drained 1 = Some 0
   \<and> (\<exists>self'. delete \<lparr>transaction_id = 1, product_id = 1, quantity = 10, pk = Some 1,
                        product_cache = None\<rparr> drained
        = (Inr (), self',
           drained\<lparr>products := [1 \<mapsto> p100\<lparr>current_stock := - 10\<rparr>],
                   details := [(2, \<lparr>transaction_id = 2, product_id = 1, quantity = 10\<rparr>)]\<rparr>))"
proof -
  let ?line = "\<lparr>transaction_id = 1, product_id = 1, quantity = 10, pk = Some 1,
                product_cache = None\<rparr>"
  have o: "objects_get 1 drained = Some ?line"
    by (simp add: objects_get_def drained_def)
  have s: "stock drained 1 = Some 0" by (simp add: stock_def drained_def p100_def)
  have k: "pk ?line = Some 1" by simp
  have t: "map_of (transactions drained) (transaction_id ?line) = Some grn1"
    "transaction_type grn1 = ''IN''"
    by (simp_all add: drained_def grn1_def)
  have g: "get_product ?line drained = (Inr p100, ?line\<lparr>product_cache := Some p100\<rparr>)"
    by (simp add: get_product_def drained_def)
  have e: "drained\<lparr>products := (products drained)(product_id ?line \<mapsto>
                      p100\<lparr>current_stock := current_stock p100 - quantity ?line\<rparr>),
                   details := filter (\<lambda>(k', r). k' \<noteq> 1) (details drained)\<rparr>
           = drained\<lparr>products := [1 \<mapsto> p100\<lparr>current_stock := - 10\<rparr>],
                   details := [(2, \<lparr>transaction_id = 2, product_id = 1, quantity = 10\<rparr>)]\<rparr>"
    by (simp add: drained_def p100_def)
  from remove_line_unconditional[OF k t g] e
  have "\<exists>self'. delete ?line drained
        = (Inr (), self',
           drained\<lparr>products := [1 \<mapsto> p100\<lparr>current_stock := - 10\<rparr>],
                   details := [(2, \<lparr>transaction_id = 2, product_id = 1, quantity = 10\<rparr>)]\<rparr>)"
    by simp
  with o s show ?thesis by blast
qed

section \<open>Replace-line and the product object of the line\<close>

text \<open>
  A stored line that is read from the database for the edit has no product object yet:
  \<open>self.product\<close> is loaded after the reversal was written, and the edit of the receipt
  from 10 to 4 leaves a stock of 4.
\<close>

lemma replace_line_unloaded_product:
  "objects_get 1 ten
     = Some \<lparr>transaction_id = 1, product_id = 1, quantity = 10, pk = Some 1,
             product_cache = None\<rparr>
   \<and> save \<lparr>transaction_id = 1, product_id = 1, quantity = 4, pk = Some 1,
            product_cache = None\<rparr> ten
     = (Inr (),
        \<lparr>transaction_id = 1, product_id = 1, quantity = 4, pk = Some 1,
         product_cache = Some (p100\<lparr>current_stock := 4\<rparr>)\<rparr>,
        ten\<lparr>products := [1 \<mapsto> p100\<lparr>current_stock := 4\<rparr>],
            details := [(1, \<lparr>transaction_id = 1, product_id = 1, quantity = 4\<rparr>)]\<rparr>)"
  by (simp add: eval_defs ten_def)

text \<open>
  C4. The line is created with a receipt of 10 in the warehouse without movements (the
  stock becomes 10, from this one line), and the instance that was created is edited to
  quantity 4 and saved. The reversal is written through \<open>old_instance.product\<close> (stock
  0 in the database), but the new effect is added to the object that the instance already
  holds, whose stock is still 10, and that object is saved over the row: the stock is 14
  and the only stored line is a receipt of 4.
\<close>

theorem replace_line_cached_product:
  "save \<lparr>transaction_id = 1, product_id = 1, quantity = 10, pk = None,
          product_cache = Some p100\<rparr> shop = (Inr (), line10, ten)
   \<and> stock ten 1 = Some 10
   \<and> revert_old (line10\<lparr>quantity := 4\<rparr>) ten
       = Inr (ten\<lparr>products := [1 \<mapsto> p100\<lparr>current_stock := 0\<rparr>]\<rparr>)
   \<and> save (line10\<lparr>quantity := 4\<rparr>) ten
       = (Inr (),
          line10\<lparr>quantity := 4, product_cache := Some (p100\<lparr>current_stock := 14\<rparr>)\<rparr>,
          ten\<lparr>products := [1 \<mapsto> p100\<lparr>current_stock := 14\<rparr>],
              details := [(1, \<lparr>transaction_id = 1, product_id = 1, quantity = 4\<rparr>)]\<rparr>)
   \<and> stock (ten\<lparr>products := [1 \<mapsto> p100\<lparr>current_stock := 14\<rparr>],
                  details := [(1, \<lparr>transaction_id = 1, product_id = 1, quantity = 4\<rparr>)]\<rparr>) 1
       = Some 14"
  by (simp add: eval_defs ten_def line10_def)

section \<open>Create-transaction is all or nothing\<close>

lemma create_fail: "create vd d = (Inl e, d') \<Longrightarrow> d' = d"
  by (auto simp: create_def split: if_splits prod.splits sum.splits dest: atomic_fail)

lemma create_ok:
  "create vd d = (Inr t, d') \<Longrightarrow>
   \<exists>d1. transaction_create (header vd) d = Inr (t, d1)
      \<and> create_details t (details_data vd) d1 = (Inr (), d')"
  by (auto simp: create_def create_body_def
           split: if_splits prod.splits sum.splits dest!: atomic_ok)

lemma create_details_append:
  "create_details t pre d1 = (Inr (), d2) \<Longrightarrow>
   create_details t (pre @ rest) d1 = create_details t rest d2"
  by (induction pre arbitrary: d1) (auto split: prod.splits sum.splits)

lemma create_details_fold:
  "create_details t dds d = (Inr (), d') \<Longrightarrow>
   d' = fold (\<lambda>dd d. snd (snd (save (new_detail t dd) d))) dds d"
  by (induction dds arbitrary: d) (auto split: prod.splits sum.splits)

lemma create_raises:
  assumes "transaction_create (header vd) d = Inr (t, d1)"
    and "details_data vd = pre @ dd # post"
    and "create_details t pre d1 = (Inr (), d2)"
    and "save (new_detail t dd) d2 = (Inl e, s, d3)"
  shows "create vd d = (Inl (Wrapped e), d)"
proof -
  from create_details_append[OF assms(3), of "dd # post"] assms(2,4)
  have "create_details t (details_data vd) d1 = (Inl e, d3)" by simp
  with assms(1) have "create_body vd d = (Inl e, (), d3)"
    by (simp add: create_body_def)
  then have "atomic (create_body vd) d = (Inl e, (), d)" by (rule atomic_raise)
  with assms(2) show ?thesis by (simp add: create_def)
qed

lemma create_returns:
  assumes "transaction_create (header vd) d = Inr (t, d1)"
    and "details_data vd \<noteq> []"
    and "create_details t (details_data vd) d1 = (Inr (), d2)"
  shows "create vd d = (Inr t, d2)"
proof -
  from assms(1,3) have "create_body vd d = (Inr t, (), d2)"
    by (simp add: create_body_def)
  then have "atomic (create_body vd) d = (Inr t, (), d2)" by (rule atomic_return)
  with assms(2) show ?thesis by (simp add: create_def)
qed

text \<open>
  C2. \<open>create\<close> inserts the header and saves the lines one after the other inside one
  atomic block. When the header is inserted under key \<open>tn\<close> and the saves of all lines of
  a non-empty list, in the order of the list, return and end in database \<open>dn\<close>,
  \<open>create\<close> returns \<open>tn\<close> and the database is \<open>dn\<close>: header, lines and stock
  changes are committed together. Whenever it raises, the database is the one from before
  the call. When the header was inserted, the lines before some line were saved (database
  \<open>d2\<close>) and the \<open>save\<close> of that line raises \<open>e1\<close>, \<open>create\<close> raises the wrapped
  \<open>e1\<close> and the database is the one from before the call: neither the header nor the
  earlier lines nor their stock changes are kept. When it returns, the header was
  inserted and the database is the result of the saves of all lines in the order of the
  list.
\<close>

theorem create_atomic:
  "(transaction_create (header vd) d = Inr (tn, dh) \<and> details_data vd \<noteq> []
       \<and> create_details tn (details_data vd) dh = (Inr (), dn)
      \<longrightarrow> create vd d = (Inr tn, dn))
   \<and> (create vd d = (Inl e, d') \<longrightarrow> d' = d)
   \<and> (transaction_create (header vd) d = Inr (t, d1) \<and> details_data vd = pre @ dd # post
       \<and> create_details t pre d1 = (Inr (), d2)
       \<and> save (new_detail t dd) d2 = (Inl e1, s, d3)
      \<longrightarrow> create vd d = (Inl (Wrapped e1), d))
   \<and> (create vd d = (Inr t', d'') \<longrightarrow>
        (\<exists>d0. transaction_create (header vd) d = Inr (t', d0)
           \<and> create_details t' (details_data vd) d0 = (Inr (), d'')
           \<and> d'' = fold (\<lambda>dd d. snd (snd (save (new_detail t' dd) d))) (details_data vd) d0))"
proof (intro conjI impI)
  assume "transaction_create (header vd) d = Inr (tn, dh) \<and> details_data vd \<noteq> []
       \<and> create_details tn (details_data vd) dh = (Inr (), dn)"
  then show "create vd d = (Inr tn, dn)"
    using create_returns by blast
next
  assume "create vd d = (Inl e, d')"
  then show "d' = d" by (rule create_fail)
next
  assume "transaction_create (header vd) d = Inr (t, d1) \<and> details_data vd = pre @ dd # post
       \<and> create_details t pre d1 = (Inr (), d2)
       \<and> save (new_detail t dd) d2 = (Inl e1, s, d3)"
  then show "create vd d = (Inl (Wrapped e1), d)"
    using create_raises by blast
next
  assume "create vd d = (Inr t', d'')"
  from create_ok[OF this] obtain d0 where
    h: "transaction_create (header vd) d = Inr (t', d0)" and
    l: "create_details t' (details_data vd) d0 = (Inr (), d'')" by blast
  from create_details_fold[OF l] h l
  show "\<exists>d0. transaction_create (header vd) d = Inr (t', d0)
           \<and> create_details t' (details_data vd) d0 = (Inr (), d'')
           \<and> d'' = fold (\<lambda>dd d. snd (snd (save (new_detail t' dd) d))) (details_data vd) d0"
    by blast
qed

lemmas create_defs = create_def create_body_def transaction_create_def new_detail_def

text \<open>
  Three dispatch lines that the stock covers: the submission is accepted under the new
  header key 3, the header and the three lines are stored and the three stocks are
  lowered from 5 to 4, 3 and 2. The same three lines and a fourth of 6 against a stock of
  5: inside the block the header and three lines are stored and three stocks are
  lowered; the submission is refused and the warehouse is the one from before.
\<close>

theorem create_atomic_witness:
  "transaction_create do2 four = Inr (3, four\<lparr>transactions := transactions four @ [(3, do2)]\<rparr>)
   \<and> create_details 3 three_lines (four\<lparr>transactions := transactions four @ [(3, do2)]\<rparr>)
       = (Inr (), four_midway)
   \<and> create \<lparr>header = do2, details_data = three_lines\<rparr> four = (Inr 3, four_midway)
   \<and> stock four 1 = Some 5 \<and> stock four_midway 1 = Some 4
   \<and> stock four_midway 2 = Some 3 \<and> stock four_midway 3 = Some 2
   \<and> create \<lparr>header = do2, details_data = three_lines @ [fourth_line]\<rparr> four
       = (Inl (Wrapped (ValidationError [InsufficientStockMsg ''D'' 5 6])), four)"
proof -
  let ?ok = "\<lparr>header = do2, details_data = three_lines\<rparr>"
  let ?vd = "\<lparr>header = do2, details_data = three_lines @ [fourth_line]\<rparr>"
  let ?d1 = "four\<lparr>transactions := transactions four @ [(3, do2)]\<rparr>"
  have h: "transaction_create (header ?vd) four = Inr (3, ?d1)"
    by (simp add: create_defs four_def do2_def next_id_def grn1_def do1_def)
  have l: "details_data ?vd = three_lines @ fourth_line # []" by simp
  have p: "create_details 3 three_lines ?d1 = (Inr (), four_midway)"
    by (simp add: three_lines_def four_midway_def create_defs eval_defs four_def do2_def item_def
          fun_eq_iff)
  have f: "save (new_detail 3 fourth_line) four_midway
             = (Inl (ValidationError [InsufficientStockMsg ''D'' 5 6]),
                new_detail 3 fourth_line, four_midway)"
    by (simp add: fourth_line_def four_midway_def create_defs eval_defs four_def do2_def item_def)
  have h': "transaction_create (header ?ok) four = Inr (3, ?d1)" using h by simp
  have n': "details_data ?ok \<noteq> []" by (simp add: three_lines_def)
  have p': "create_details 3 (details_data ?ok) ?d1 = (Inr (), four_midway)" using p by simp
  from create_atomic[where vd = ?ok and d = four and tn = 3 and dh = ?d1 and dn = four_midway]
    h' n' p'
  have ok: "create ?ok four = (Inr 3, four_midway)" by blast
  from create_atomic[where vd = ?vd and d = four and t = 3 and ?d1.0 = ?d1 and pre = three_lines
      and dd = fourth_line and post = "[]" and ?d2.0 = four_midway]
    h l p f
  have bad: "create ?vd four
      = (Inl (Wrapped (ValidationError [InsufficientStockMsg ''D'' 5 6])), four)"
    by blast
  have st: "stock four 1 = Some 5" "stock four_midway 1 = Some 4"
    "stock four_midway 2 = Some 3" "stock four_midway 3 = Some 2"
    by (simp_all add: stock_def four_def four_midway_def item_def)
  from h p ok bad st show ?thesis by simp
qed

section \<open>One line per transaction and product\<close>

lemma replace_absent:
  "k \<notin> set (map fst xs) \<Longrightarrow> map (\<lambda>(k', r). if k' = k then (k', v) else (k', r)) xs = xs"
  by (induction xs) auto

lemma keys_replace:
  "map fst (map (\<lambda>(k', r). if k' = k then (k', v) else (k', r)) xs) = map fst xs"
  by (induction xs) auto

lemma keys_saved_rows:
  "map fst (saved_rows self rows) =
     (case pk self of
        None \<Rightarrow> map fst rows @ [next_id rows]
      | Some k \<Rightarrow> if k \<in> set (map fst rows) then map fst rows else map fst rows @ [k])"
  by (simp add: saved_rows_def keys_replace del: map_map split: option.splits)

lemma distinct_saved_rows:
  "distinct (map fst rows) \<Longrightarrow> distinct (map fst (saved_rows self rows))"
  using next_id_fresh[of rows]
  by (simp add: keys_saved_rows split: option.splits)

lemma save_details:
  "details (snd (snd (save self d))) = details d
   \<or> (full_clean self d = Inr () \<and> details (snd (snd (save self d))) = saved_rows self (details d))"
proof (cases "save self d")
  case (fields r s d')
  show ?thesis
  proof (cases r)
    case (Inl e)
    with fields have "d' = d" by (auto dest: save_fail)
    with fields show ?thesis by simp
  next
    case (Inr v)
    with fields save_ok[of self d v s d'] save_body_details[of self d v s d']
    show ?thesis by simp
  qed
qed

lemma delete_details:
  "details (snd (snd (delete self d))) = details d
   \<or> (\<exists>k. pk self = Some k
         \<and> details (snd (snd (delete self d))) = filter (\<lambda>(k', r). k' \<noteq> k) (details d))"
proof (cases "delete self d")
  case (fields r s d')
  show ?thesis
  proof (cases r)
    case (Inl e)
    with fields have "d' = d" by (auto dest: delete_fail)
    with fields show ?thesis by simp
  next
    case (Inr v)
    with fields have "delete_body self d = (Inr v, s, d')" by (auto dest: delete_ok)
    then have "\<exists>k. pk self = Some k \<and> details d' = filter (\<lambda>(k', r). k' \<noteq> k) (details d)"
      by (auto simp: delete_body_def model_delete_def Let_def
               split: option.splits prod.splits sum.splits dest!: get_product_fields)
    with fields show ?thesis by simp
  qed
qed

lemma save_distinct_keys:
  "distinct (map fst (details d)) \<Longrightarrow> distinct (map fst (details (snd (snd (save self d)))))"
  using save_details[of self d] by (auto simp: distinct_saved_rows)

lemma delete_distinct_keys:
  "distinct (map fst (details d)) \<Longrightarrow> distinct (map fst (details (snd (snd (delete self d)))))"
  using delete_details[of self d] by (auto simp: distinct_map_filter)

lemma distinct_replace_pairs:
  assumes "distinct (map fst xs)" and "distinct (map (\<lambda>(k, r). f r) xs)"
    and "\<And>k' r. (k', r) \<in> set xs \<Longrightarrow> k' \<noteq> k \<Longrightarrow> f r \<noteq> f v"
  shows "distinct (map (\<lambda>(k, r). f r) (map (\<lambda>(k', r). if k' = k then (k', v) else (k', r)) xs))"
  using assms
proof (induction xs)
  case Nil
  then show ?case by simp
next
  case (Cons x xs)
  obtain k0 r0 where x: "x = (k0, r0)" by (cases x)
  show ?case
  proof (cases "k0 = k")
    case True
    with Cons.prems x have nk: "k \<notin> set (map fst xs)" by auto
    then have same: "map (\<lambda>(k', r). if k' = k then (k', v) else (k', r)) xs = xs"
      by (rule replace_absent)
    have "f v \<notin> set (map (\<lambda>(k, r). f r) xs)"
    proof
      assume "f v \<in> set (map (\<lambda>(k, r). f r) xs)"
      then obtain k' r where in_xs: "(k', r) \<in> set xs" and eq: "f r = f v" by auto
      from in_xs nk have "k' \<noteq> k" by force
      with Cons.prems(3)[of k' r] in_xs eq show False by simp
    qed
    with Cons.prems(2) True x same show ?thesis by simp
  next
    case False
    from Cons.prems have ih: "distinct (map (\<lambda>(k, r). f r)
         (map (\<lambda>(k', r). if k' = k then (k', v) else (k', r)) xs))"
      by (intro Cons.IH) auto
    from Cons.prems(3)[of k0 r0] False x have "f r0 \<noteq> f v" by simp
    moreover from Cons.prems(2) x have "f r0 \<notin> set (map (\<lambda>(k, r). f r) xs)" by simp
    ultimately have "f r0 \<notin> set (map (\<lambda>(k, r). f r)
         (map (\<lambda>(k', r). if k' = k then (k', v) else (k', r)) xs))"
      by (auto split: if_splits)
    with ih False x show ?thesis by simp
  qed
qed

lemma not_taken:
  "\<not> pair_taken self d \<Longrightarrow> (k, r) \<in> set (details d) \<Longrightarrow> Some k \<noteq> pk self \<Longrightarrow>
   (transaction_id r, product_id r) \<noteq> (transaction_id self, product_id self)"
  unfolding pair_taken_def list_ex_iff by blast

lemma pair_of_row: 
  "(transaction_id (row_of self), product_id (row_of self)) = (transaction_id self, product_id self)"
  by (simp add: row_of_def)

lemma unique_saved_rows:
  assumes "distinct (map fst (details d))" and "unique_pairs d" and "\<not> pair_taken self d"
  shows "distinct (map (\<lambda>(k, r). (transaction_id r, product_id r)) (saved_rows self (details d)))"
proof -
  let ?f = "\<lambda>r. (transaction_id r, product_id r)"
  let ?new = "(transaction_id self, product_id self)"
  have fresh: "?new \<notin> set (map (\<lambda>(k, r). ?f r) (details d))"
    if "\<And>k r. (k, r) \<in> set (details d) \<Longrightarrow> Some k \<noteq> pk self"
  proof
    assume "?new \<in> set (map (\<lambda>(k, r). ?f r) (details d))"
    then obtain k r where in_d: "(k, r) \<in> set (details d)" and eq: "?f r = ?new"
      by (auto simp del: prod.inject)
    from not_taken[OF assms(3) in_d that[OF in_d]] eq show False by simp
  qed
  show ?thesis
  proof (cases "pk self")
    case None
    then have "?new \<notin> set (map (\<lambda>(k, r). ?f r) (details d))"
      by (intro fresh) simp
    with assms(2) None show ?thesis
      by (simp add: saved_rows_def unique_pairs_def pair_of_row)
  next
    case (Some k)
    show ?thesis
    proof (cases "k \<in> set (map fst (details d))")
      case True
      have "?f r \<noteq> ?f (row_of self)" if in_d: "(k', r) \<in> set (details d)" and ne: "k' \<noteq> k"
        for k' r
      proof -
        from ne Some have "Some k' \<noteq> pk self" by simp
        from not_taken[OF assms(3) in_d this] show ?thesis by (simp add: pair_of_row)
      qed
      from distinct_replace_pairs[OF assms(1) assms(2)[unfolded unique_pairs_def] this]
      show ?thesis using Some True by (simp add: saved_rows_def)
    next
      case False
      have "?new \<notin> set (map (\<lambda>(k, r). ?f r) (details d))"
      proof (rule fresh)
        fix k' r assume "(k', r) \<in> set (details d)"
        then have "k' \<in> set (map fst (details d))" by force
        with False Some show "Some k' \<noteq> pk self" by auto
      qed
      with assms(2) Some False show ?thesis
        by (simp add: saved_rows_def unique_pairs_def pair_of_row)
    qed
  qed
qed

lemma save_unique_pairs:
  assumes "distinct (map fst (details d))" and "unique_pairs d"
  shows "unique_pairs (snd (snd (save self d)))"
  using save_details[of self d]
proof
  assume "details (snd (snd (save self d))) = details d"
  with assms(2) show ?thesis by (simp add: unique_pairs_def)
next
  assume a: "full_clean self d = Inr () \<and>
     details (snd (snd (save self d))) = saved_rows self (details d)"
  with full_clean_ok[of self d] have "\<not> pair_taken self d" by simp
  from unique_saved_rows[OF assms this] a show ?thesis by (simp add: unique_pairs_def)
qed

lemma delete_unique_pairs:
  assumes "unique_pairs d"
  shows "unique_pairs (snd (snd (delete self d)))"
  using delete_details[of self d] assms
  by (auto simp: unique_pairs_def distinct_map_filter)

lemma save_taken_fails:
  assumes "(k, r) \<in> set (details d)" and "transaction_id r = t"
    and "product_id r = data_product_pk dd"
  shows "\<exists>msgs. save (new_detail t dd) d = (Inl (ValidationError msgs), new_detail t dd, d)
           \<and> (clean_fields (new_detail t dd) d = [] \<longrightarrow> NotUniqueTogether \<in> set msgs)"
proof -
  from assms have "pair_taken (new_detail t dd) d"
    unfolding pair_taken_def list_ex_iff new_detail_def by force
  then have "\<exists>msgs. full_clean (new_detail t dd) d = Inl (ValidationError msgs)
           \<and> (clean_fields (new_detail t dd) d = [] \<longrightarrow> NotUniqueTogether \<in> set msgs)"
    by (simp add: full_clean_def validate_unique_def Let_def)
  then show ?thesis by (auto simp: save_def)
qed

lemma save_new_keeps:
  assumes "save (new_detail t dd) d = (Inr v, s, d')"
  shows "set (details d) \<subseteq> set (details d')
       \<and> (\<exists>k r. (k, r) \<in> set (details d') \<and> transaction_id r = t
                 \<and> product_id r = data_product_pk dd)
       \<and> transactions d' = transactions d
       \<and> dom (products d) \<subseteq> dom (products d')
       \<and> data_product_pk dd \<in> dom (products d')"
proof -
  have k: "pk (new_detail t dd) = None" by (simp add: new_detail_def)
  from save_new_result[OF k assms] obtain t0 p where
    d': "d' = d\<lparr>products := (products d)(product_id (new_detail t dd)
                   \<mapsto> moved t0 p (quantity (new_detail t dd))),
                 details := details d @ [(next_id (details d), row_of (new_detail t dd))]\<rparr>"
    by blast
  have r: "transaction_id (row_of (new_detail t dd)) = t"
    "product_id (row_of (new_detail t dd)) = data_product_pk dd"
    "product_id (new_detail t dd) = data_product_pk dd"
    by (simp_all add: row_of_def new_detail_def)
  have "(next_id (details d), row_of (new_detail t dd)) \<in> set (details d')"
    using d' by simp
  with r have "\<exists>k r. (k, r) \<in> set (details d') \<and> transaction_id r = t
                 \<and> product_id r = data_product_pk dd" by blast
  moreover from d' r(3) have "set (details d) \<subseteq> set (details d')" "transactions d' = transactions d"
    "dom (products d) \<subseteq> dom (products d')" "data_product_pk dd \<in> dom (products d')"
    by auto
  ultimately show ?thesis by blast
qed

lemma create_details_keeps:
  "create_details t dds d = (Inr v, d') \<Longrightarrow>
   set (details d) \<subseteq> set (details d') \<and> transactions d' = transactions d
   \<and> dom (products d) \<subseteq> dom (products d')
   \<and> (\<forall>dd \<in> set dds. data_product_pk dd \<in> dom (products d')
         \<and> (\<exists>k r. (k, r) \<in> set (details d') \<and> transaction_id r = t
                    \<and> product_id r = data_product_pk dd))"
proof (induction dds arbitrary: d)
  case Nil
  then show ?case by simp
next
  case (Cons dd dds)
  from Cons.prems obtain u s d1 where s: "save (new_detail t dd) d = (Inr u, s, d1)"
    and rest: "create_details t dds d1 = (Inr v, d')"
    by (auto split: prod.splits sum.splits)
  note a = save_new_keeps[OF s] and b = Cons.IH[OF rest]
  from a b have "data_product_pk dd \<in> dom (products d')" by blast
  moreover from a b have "\<exists>k r. (k, r) \<in> set (details d') \<and> transaction_id r = t
                    \<and> product_id r = data_product_pk dd" by blast
  moreover from a b have "set (details d) \<subseteq> set (details d')" by blast
  moreover from a b have "transactions d' = transactions d" by simp
  moreover from a b have "dom (products d) \<subseteq> dom (products d')" by blast
  ultimately show ?case using b by simp
qed

lemma create_details_taken:
  "(k, r) \<in> set (details d) \<Longrightarrow> transaction_id r = t \<Longrightarrow>
   product_id r \<in> set (map data_product_pk dds) \<Longrightarrow>
   \<exists>e d'. create_details t dds d = (Inl e, d')"
proof (induction dds arbitrary: d)
  case Nil
  then show ?case by simp
next
  case (Cons dd dds)
  show ?case
  proof (cases "product_id r = data_product_pk dd")
    case True
    from save_taken_fails[OF Cons.prems(1,2) True] show ?thesis by auto
  next
    case False
    with Cons.prems(3) have later: "product_id r \<in> set (map data_product_pk dds)" by simp
    show ?thesis
    proof (cases "save (new_detail t dd) d")
      case (fields res s d1)
      show ?thesis
      proof (cases res)
        case (Inl e)
        with fields show ?thesis by simp
      next
        case (Inr u)
        with fields save_new_keeps[of t dd d u s d1] Cons.prems(1)
        have "(k, r) \<in> set (details d1)" by auto
        from Cons.IH[OF this Cons.prems(2) later] fields Inr show ?thesis by simp
      qed
    qed
  qed
qed

lemma create_details_duplicate:
  "\<not> distinct (map data_product_pk dds) \<Longrightarrow> \<exists>e d'. create_details t dds d = (Inl e, d')"
proof (induction dds arbitrary: d)
  case Nil
  then show ?case by simp
next
  case (Cons dd dds)
  show ?case
  proof (cases "save (new_detail t dd) d")
    case (fields res s d1)
    show ?thesis
    proof (cases res)
      case (Inl e)
      with fields show ?thesis by simp
    next
      case (Inr u)
      show ?thesis
      proof (cases "data_product_pk dd \<in> set (map data_product_pk dds)")
        case True
        from save_new_keeps[of t dd d u s d1] fields Inr obtain k r where
          "(k, r) \<in> set (details d1)" "transaction_id r = t" "product_id r = data_product_pk dd"
          by auto
        from create_details_taken[OF this(1,2), of dds] this(3) True fields Inr
        show ?thesis by simp
      next
        case False
        with Cons.prems have "\<not> distinct (map data_product_pk dds)" by simp
        from Cons.IH[OF this, of d1] fields Inr show ?thesis by simp
      qed
    qed
  qed
qed

lemma create_duplicate_fails:
  assumes "\<not> distinct (map data_product_pk (details_data vd))"
  shows "\<exists>e. create vd d = (Inl (Wrapped e), d)"
proof -
  from assms have ne: "details_data vd \<noteq> []" by auto
  have "\<exists>e d'. create_body vd d = (Inl e, (), d')"
  proof (cases "transaction_create (header vd) d")
    case (Inl e)
    then show ?thesis by (simp add: create_body_def)
  next
    case (Inr a)
    obtain t d1 where a: "a = (t, d1)" by (cases a)
    from create_details_duplicate[OF assms, of t d1] Inr a show ?thesis
      by (auto simp: create_body_def)
  qed
  then obtain e d' where "create_body vd d = (Inl e, (), d')" by blast
  then have "atomic (create_body vd) d = (Inl e, (), d)" by (rule atomic_raise)
  with ne show ?thesis by (simp add: create_def)
qed

lemma transaction_create_stored:
  "transaction_create h d = Inr (t, d1) \<Longrightarrow>
   map_of (transactions d1) t = Some h \<and> details d1 = details d \<and> products d1 = products d"
proof -
  assume a: "transaction_create h d = Inr (t, d1)"
  then have t: "t = next_id (transactions d)"
    and d1: "d1 = d\<lparr>transactions := transactions d @ [(t, h)]\<rparr>"
    by (auto simp: transaction_create_def Let_def split: if_splits)
  from t have "map_of (transactions d) t = None"
    using next_id_fresh[of "transactions d"] by (simp add: map_of_fresh)
  with d1 show ?thesis by (simp add: map_add_def)
qed

lemma create_duplicate_message:
  assumes "transaction_create (header vd) d = Inr (t, d1)"
    and "details_data vd = pre @ dd # post"
    and "create_details t pre d1 = (Inr (), d2)"
    and "data_product_pk dd \<in> set (map data_product_pk pre)"
  shows "\<exists>msgs. create vd d = (Inl (Wrapped (ValidationError msgs)), d)
           \<and> NotUniqueTogether \<in> set msgs"
proof -
  from assms(4) obtain dd0 where dd0: "dd0 \<in> set pre" "data_product_pk dd0 = data_product_pk dd"
    by auto
  from create_details_keeps[OF assms(3)] dd0 obtain k r where
    row: "(k, r) \<in> set (details d2)" "transaction_id r = t" "product_id r = data_product_pk dd"
    and p: "data_product_pk dd \<in> dom (products d2)"
    and tr: "transactions d2 = transactions d1"
    by metis
  from transaction_create_stored[OF assms(1)] tr
  have "map_of (transactions d2) t \<noteq> None" by simp
  with p have "clean_fields (new_detail t dd) d2 = []"
    by (auto simp: clean_fields_def new_detail_def)
  with save_taken_fails[OF row] obtain msgs where
    s: "save (new_detail t dd) d2 = (Inl (ValidationError msgs), new_detail t dd, d2)"
    and m: "NotUniqueTogether \<in> set msgs" by blast
  from create_raises[OF assms(1,2,3) s] m show ?thesis by blast
qed

lemma create_details_unique:
  "distinct (map fst (details d)) \<Longrightarrow> unique_pairs d \<Longrightarrow>
   distinct (map fst (details (snd (create_details t dds d))))
   \<and> unique_pairs (snd (create_details t dds d))"
proof (induction dds arbitrary: d)
  case Nil
  then show ?case by simp
next
  case (Cons dd dds)
  let ?d1 = "snd (snd (save (new_detail t dd) d))"
  from Cons.prems have k: "distinct (map fst (details ?d1))" and u: "unique_pairs ?d1"
    by (simp_all add: save_distinct_keys save_unique_pairs)
  show ?case
  proof (cases "save (new_detail t dd) d")
    case (fields res s d1)
    with k u have k1: "distinct (map fst (details d1))" and u1: "unique_pairs d1" by simp_all
    show ?thesis
    proof (cases res)
      case (Inl e)
      with fields k1 u1 show ?thesis by simp
    next
      case (Inr v)
      with fields Cons.IH[OF k1 u1] show ?thesis by simp
    qed
  qed
qed

lemma create_unique_pairs:
  assumes "distinct (map fst (details d))" and "unique_pairs d"
  shows "unique_pairs (snd (create vd d))"
proof (cases "create vd d")
  case (Pair res d')
  show ?thesis
  proof (cases res)
    case (Inl e)
    with Pair have "d' = d" by (auto dest: create_fail)
    with Pair assms(2) show ?thesis by simp
  next
    case (Inr t)
    with Pair create_ok[of vd d t d'] obtain d1 where
      h: "transaction_create (header vd) d = Inr (t, d1)" and
      l: "create_details t (details_data vd) d1 = (Inr (), d')" by auto
    from transaction_create_stored[OF h] assms
    have "distinct (map fst (details d1))" "unique_pairs d1"
      by (simp_all add: unique_pairs_def)
    from create_details_unique[OF this, of t "details_data vd"] l Pair show ?thesis by simp
  qed
qed

text \<open>
  C7. The stored lines never share a transaction and product: with distinct primary keys,
  \<open>save\<close>, \<open>delete\<close> and \<open>create\<close> keep the pairs distinct. A submission in
  which two lines name the same product is always refused by \<open>create\<close>, with the
  database from before the call (no header, no line, no stock change). When the header
  was inserted and the lines before the repeated product were saved, the refusal is the
  wrapped \<open>ValidationError\<close> of the line that repeats the product, and it carries the
  message of \<open>unique_together\<close>.
\<close>

theorem create_duplicate_product:
  "(distinct (map fst (details d)) \<and> unique_pairs d \<longrightarrow>
      unique_pairs (snd (snd (save self d))) \<and> unique_pairs (snd (snd (delete self d)))
      \<and> unique_pairs (snd (create vd d)))
   \<and> (\<not> distinct (map data_product_pk (details_data vd)) \<longrightarrow>
        (\<exists>e. create vd d = (Inl (Wrapped e), d)))
   \<and> (transaction_create (header vd) d = Inr (t, d1) \<and> details_data vd = pre @ dd # post
       \<and> create_details t pre d1 = (Inr (), d2)
       \<and> data_product_pk dd \<in> set (map data_product_pk pre) \<longrightarrow>
        (\<exists>msgs. create vd d = (Inl (Wrapped (ValidationError msgs)), d)
           \<and> NotUniqueTogether \<in> set msgs))"
proof (intro conjI impI)
  assume a: "distinct (map fst (details d)) \<and> unique_pairs d"
  then show "unique_pairs (snd (snd (save self d)))" by (simp add: save_unique_pairs)
  from a show "unique_pairs (snd (snd (delete self d)))" by (simp add: delete_unique_pairs)
  from a show "unique_pairs (snd (create vd d))" by (simp add: create_unique_pairs)
next
  assume "\<not> distinct (map data_product_pk (details_data vd))"
  then show "\<exists>e. create vd d = (Inl (Wrapped e), d)" by (rule create_duplicate_fails)
next
  assume "transaction_create (header vd) d = Inr (t, d1) \<and> details_data vd = pre @ dd # post
       \<and> create_details t pre d1 = (Inr (), d2)
       \<and> data_product_pk dd \<in> set (map data_product_pk pre)"
  then show "\<exists>msgs. create vd d = (Inl (Wrapped (ValidationError msgs)), d)
           \<and> NotUniqueTogether \<in> set msgs"
    using create_duplicate_message by blast
qed

text \<open>
  A receipt under the new code \<open>GRN-2\<close> that names product 1 twice, with quantities 3
  and 4: inside the block the header and the first line are stored and the stock is 3;
  the second line is refused as a duplicate and the warehouse is the one from before.
\<close>

theorem create_duplicate_product_witness:
  "create_details 3 [\<lparr>data_product_pk = 1, data_product = p100, data_quantity = 3\<rparr>]
       (shop\<lparr>transactions := transactions shop @ [(3, grn2)]\<rparr>)
     = (Inr (), \<lparr>products = [1 \<mapsto> p100\<lparr>current_stock := 3\<rparr>],
                 transactions = transactions shop @ [(3, grn2)],
                 details = [(1, \<lparr>transaction_id = 3, product_id = 1, quantity = 3\<rparr>)]\<rparr>)
   \<and> create \<lparr>header = grn2,
              details_data = [\<lparr>data_product_pk = 1, data_product = p100, data_quantity = 3\<rparr>,
                              \<lparr>data_product_pk = 1, data_product = p100, data_quantity = 4\<rparr>]\<rparr>
         shop
     = (Inl (Wrapped (ValidationError [NotUniqueTogether])), shop)
   \<and> unique_pairs stocked
   \<and> unique_pairs (snd (snd (save \<lparr>transaction_id = 2, product_id = 1, quantity = 7,
                                     pk = Some 2, product_cache = None\<rparr> stocked)))"
proof -
  let ?a = "\<lparr>data_product_pk = 1, data_product = p100, data_quantity = 3\<rparr>"
  let ?b = "\<lparr>data_product_pk = 1, data_product = p100, data_quantity = 4\<rparr>"
  let ?vd = "\<lparr>header = grn2, details_data = [?a, ?b]\<rparr>"
  let ?d1 = "shop\<lparr>transactions := transactions shop @ [(3, grn2)]\<rparr>"
  let ?d2 = "\<lparr>products = [1 \<mapsto> p100\<lparr>current_stock := 3\<rparr>],
                 transactions = transactions shop @ [(3, grn2)],
                 details = [(1, \<lparr>transaction_id = 3, product_id = 1, quantity = 3\<rparr>)]\<rparr>"
  let ?line = "\<lparr>transaction_id = 2, product_id = 1, quantity = 7,
                pk = Some 2, product_cache = None\<rparr>"
  have h: "transaction_create (header ?vd) shop = Inr (3, ?d1)"
    by (simp add: create_defs eval_defs grn2_def)
  have l: "details_data ?vd = [?a] @ ?b # []" by simp
  have p: "create_details 3 [?a] ?d1 = (Inr (), ?d2)"
    by (simp add: create_defs eval_defs grn2_def)
  have m: "data_product_pk ?b \<in> set (map data_product_pk [?a])" by simp
  have f: "fst (save (new_detail 3 ?b) ?d2) = Inl (ValidationError [NotUniqueTogether])"
    by (simp add: create_defs eval_defs grn2_def)
  have k: "distinct (map fst (details stocked))" and u: "unique_pairs stocked"
    by (simp_all add: stocked_def unique_pairs_def)
  from create_duplicate_product[of shop _ ?vd 3 ?d1 "[?a]" ?b "[]" ?d2] h l p m
  obtain msgs where c: "create ?vd shop = (Inl (Wrapped (ValidationError msgs)), shop)"
    by blast
  from create_raises[OF h l p, of "ValidationError [NotUniqueTogether]"] f c
  have 1: "create ?vd shop = (Inl (Wrapped (ValidationError [NotUniqueTogether])), shop)"
    by (metis prod.collapse)
  from create_duplicate_product[of stocked ?line] k u
  have 2: "unique_pairs (snd (snd (save ?line stocked)))" by blast
  from p 1 u 2 show ?thesis by blast
qed

section \<open>The ledger under sequences of line operations\<close>

subsection \<open>Balances\<close>








subsection \<open>What a successful save and delete wrote\<close>






subsection \<open>Each operation keeps the ledger\<close>






subsection \<open>Sequences\<close>





















end
